theory Spec2Isabelle
  imports Main
begin

unbundle bit_operations_syntax

section \<open>Signals of the hardware description\<close>

text \<open>
  The firmware is a synchronous circuit written in Migen.  A \<open>Signal\<close> holds an integer of a
  fixed width; expressions are evaluated on unbounded integers and the value is cut to the
  width of the target when it is assigned.  Within one clock tick every statement of the
  \<open>sync\<close> domain reads the values the registers had before the tick, and when two statements
  assign the same register the later one wins.  The statements of a module come before the
  statements of its submodules.

  A statement is therefore modelled as a function of the registers before the tick (\<open>s\<close>)
  and of the pending next values (\<open>n\<close>), returning the pending values it leaves behind.
  A register copied into a register of the same width and signedness is written without
  \<open>trunc_signal\<close>, which would leave it unchanged.
\<close>

definition trunc_signal :: "nat \<Rightarrow> bool \<Rightarrow> int \<Rightarrow> int" where
  "trunc_signal nbits signed v =
     (let u = v mod 2 ^ nbits
      in if signed \<and> 2 ^ (nbits - 1) \<le> u then u - 2 ^ nbits else u)"

definition in_range :: "nat \<Rightarrow> bool \<Rightarrow> int \<Rightarrow> bool" where
  "in_range nbits signed v =
     (if signed then - (2 ^ (nbits - 1)) \<le> v \<and> v < 2 ^ (nbits - 1) else 0 \<le> v \<and> v < 2 ^ nbits)"

definition b2i :: "bool \<Rightarrow> int" where
  "b2i b = (if b then 1 else 0)"

section \<open>Step pulse generator (firmware/stepgen.py)\<close>

subsection \<open>Pick-off selection in the constructor\<close>


datatype error = NotEnoughValues nat | BadPickOff | TypeError | ZeroDivisionError

record pick_offs =
  pick_off_pos :: int
  pick_off_vel :: int
  pick_off_acc :: int


record stepgen_params = pick_offs +
  soft_stop :: bool

definition acc_shift :: "'a pick_offs_scheme \<Rightarrow> nat" where
  "acc_shift k = nat (pick_off_acc k - pick_off_vel k)"

definition pos_width :: "'a pick_offs_scheme \<Rightarrow> nat" where
  "pos_width k = nat (64 + (pick_off_vel k - pick_off_pos k))"

definition speed_width :: "'a pick_offs_scheme \<Rightarrow> nat" where
  "speed_width k = nat (32 + (pick_off_acc k - pick_off_vel k))"

subsection \<open>Registers\<close>

record stepgen =
  step_prev :: bool
  step :: bool
  dir :: bool
  steplen :: nat
  dir_hold_time :: nat
  dir_setup_time :: nat
  steplen_counter :: nat
  dir_hold_counter :: nat
  dir_setup_counter :: nat
  hold_dds :: bool
  wait :: bool
  reset :: bool
  enable :: bool
  position_mode :: bool
  accelerating :: bool
  position :: int
  position_target :: int
  acc_distance :: int
  speed :: int
  speed_target :: int
  max_speed :: int
  max_acceleration :: int

definition stepgen_reset :: stepgen where
  "stepgen_reset =
     \<lparr>step_prev = False, step = False, dir = True,
      steplen = 0, dir_hold_time = 0, dir_setup_time = 0,
      steplen_counter = 0, dir_hold_counter = 0, dir_setup_counter = 0,
      hold_dds = False, wait = False, reset = False, enable = False,
      position_mode = False, accelerating = False,
      position = 0, position_target = 0, acc_distance = 0,
      speed = 0, speed_target = 0, max_speed = 0, max_acceleration = 0\<rparr>"

subsection \<open>Combinatorial signals\<close>

definition dtg :: "'a pick_offs_scheme \<Rightarrow> stepgen \<Rightarrow> int" where
  "dtg k s = trunc_signal (pos_width k) True (position_target s - position s)"

definition stopped :: "'a pick_offs_scheme \<Rightarrow> stepgen \<Rightarrow> bool" where
  "stopped k s =
     (dtg k s < (5 * max_acceleration s) div 2 ^ acc_shift k \<and>
      dtg k s > (- 5 * max_acceleration s) div 2 ^ acc_shift k \<and>
      speed s = 0)"

subsection \<open>Velocity ramp\<close>

definition ramp_accelerate :: "'a pick_offs_scheme \<Rightarrow> stepgen \<Rightarrow> stepgen \<Rightarrow> stepgen" where
  "ramp_accelerate k s n =
     (let n1 = (if speed s \<ge> 0
                then n\<lparr>acc_distance := trunc_signal (pos_width k) True
                        (acc_distance s + (speed s + max_acceleration s div 2) div 2 ^ acc_shift k)\<rparr>
                else n\<lparr>acc_distance := trunc_signal (pos_width k) True
                        (acc_distance s - (speed s + max_acceleration s div 2) div 2 ^ acc_shift k)\<rparr>)
      in n1\<lparr>speed := trunc_signal (speed_width k) True (speed s + max_acceleration s),
             accelerating := True\<rparr>)"

definition ramp_decelerate :: "'a pick_offs_scheme \<Rightarrow> stepgen \<Rightarrow> stepgen \<Rightarrow> stepgen" where
  "ramp_decelerate k s n =
     (let n1 = (if speed s > 0
                then n\<lparr>acc_distance := trunc_signal (pos_width k) True
                        (acc_distance s - (speed s - max_acceleration s div 2) div 2 ^ acc_shift k)\<rparr>
                else n\<lparr>acc_distance := trunc_signal (pos_width k) True
                        (acc_distance s + (speed s - max_acceleration s div 2) div 2 ^ acc_shift k)\<rparr>)
      in n1\<lparr>speed := trunc_signal (speed_width k) True (speed s - max_acceleration s),
             accelerating := True\<rparr>)"

definition ramp_bridge :: "'a pick_offs_scheme \<Rightarrow> stepgen \<Rightarrow> stepgen \<Rightarrow> stepgen" where
  "ramp_bridge k s n =
     (let n1 = (if \<not> position_mode s \<or> speed_target s = 0
                then (let n0 = n\<lparr>speed := speed_target s\<rparr>
                      in if speed s \<noteq> speed_target s
                         then (if speed s \<ge> 0
                               then n0\<lparr>acc_distance := trunc_signal (pos_width k) True
                                       (acc_distance s
                                        + (speed s + speed_target s) div 2 ^ (acc_shift k + 1))\<rparr>
                               else n0\<lparr>acc_distance := trunc_signal (pos_width k) True
                                       (acc_distance s
                                        - (speed s + speed_target s) div 2 ^ (acc_shift k + 1))\<rparr>)
                         else n0)
                else n);
          n2 = n1\<lparr>accelerating := False\<rparr>
      in if speed_target s = 0 then n2\<lparr>acc_distance := 0\<rparr> else n2)"

definition ramp :: "'a pick_offs_scheme \<Rightarrow> stepgen \<Rightarrow> stepgen \<Rightarrow> stepgen" where
  "ramp k s n =
     (if \<not> reset s \<and> \<not> wait s then
        (let n1 = (if \<not> enable s then n\<lparr>speed_target := 0\<rparr> else n)
         in if max_acceleration s = 0
            then n1\<lparr>speed := speed_target s\<rparr>
            else if speed_target s \<ge> speed s + max_acceleration s then ramp_accelerate k s n1
            else if speed_target s \<le> speed s - max_acceleration s then ramp_decelerate k s n1
            else ramp_bridge k s n1)
      else n)"

subsection \<open>Position algorithm, reset and position integration\<close>

definition position_algorithm :: "'a pick_offs_scheme \<Rightarrow> stepgen \<Rightarrow> stepgen \<Rightarrow> stepgen" where
  "position_algorithm k s n =
     (if acc_distance s = 0 \<and> position_mode s then
        (if dtg k s > (5 * max_acceleration s) div 2 ^ acc_shift k
         then n\<lparr>speed_target := max_speed s\<rparr>
         else if dtg k s < (- 5 * max_acceleration s) div 2 ^ acc_shift k
         then n\<lparr>speed_target := trunc_signal (speed_width k) True (- 1 * max_speed s)\<rparr>
         else n)
      else if acc_distance s > 0 \<and> position_mode s then
        (if dtg k s - (((5 + 4 * b2i (accelerating s)) * speed s
                        + (4 + 4) * b2i (accelerating s) * max_acceleration s)
                       div 2 ^ (acc_shift k + 1)) > acc_distance s
         then n\<lparr>speed_target := max_speed s\<rparr>
         else n\<lparr>speed_target := 0\<rparr>)
      else if acc_distance s < 0 \<and> position_mode s then
        (if dtg k s - (((5 + 4 * b2i (accelerating s)) * speed s
                        - (4 + 4) * b2i (accelerating s) * max_acceleration s)
                       div 2 ^ (acc_shift k + 1)) < acc_distance s
         then n\<lparr>speed_target := trunc_signal (speed_width k) True (- 1 * max_speed s)\<rparr>
         else n\<lparr>speed_target := 0\<rparr>)
      else n)"

definition reset_algorithm :: "stepgen \<Rightarrow> stepgen \<Rightarrow> stepgen" where
  "reset_algorithm s n =
     (if reset s
      then n\<lparr>speed_target := 0, speed := 0, max_acceleration := 0, position := 0\<rparr>
      else n)"

definition update_position :: "stepgen_params \<Rightarrow> stepgen \<Rightarrow> stepgen \<Rightarrow> stepgen" where
  "update_position k s n =
     (if soft_stop k then
        (if \<not> reset s \<and> \<not> wait s
         then n\<lparr>position := trunc_signal (pos_width k) True
                 (position s + speed s div 2 ^ acc_shift k)\<rparr>
         else n)
      else
        (if \<not> reset s \<and> enable s \<and> \<not> wait s
         then n\<lparr>position := trunc_signal (pos_width k) True
                 (position s + speed s div 2 ^ acc_shift k)\<rparr>
         else n))"

subsection \<open>Step and direction routine (create_routine) and the down counters\<close>

definition step_phase :: "'a pick_offs_scheme \<Rightarrow> stepgen \<Rightarrow> bool" where
  "step_phase k s = bit (position s) (nat (pick_off_pos k))"

definition speed_sign :: "'a pick_offs_scheme \<Rightarrow> stepgen \<Rightarrow> bool" where
  "speed_sign k s = bit (speed s) (nat (32 + (pick_off_acc k - pick_off_vel k) - 1))"

definition routine_step :: "'a pick_offs_scheme \<Rightarrow> stepgen \<Rightarrow> stepgen \<Rightarrow> stepgen" where
  "routine_step k s n =
     (if step_phase k s \<noteq> step_prev s then
        (if \<not> hold_dds s
         then n\<lparr>step_prev := step_phase k s,
                 steplen_counter := steplen s mod 2 ^ 10,
                 dir_hold_counter := (steplen s + dir_hold_time s) mod 2 ^ 11,
                 dir_setup_counter := (steplen s + dir_hold_time s + dir_setup_time s) mod 2 ^ 13,
                 wait := False\<rparr>
         else n\<lparr>wait := True\<rparr>)
      else n)"

definition routine_release :: "stepgen \<Rightarrow> stepgen \<Rightarrow> stepgen" where
  "routine_release s n = (if dir_setup_counter s = 0 then n\<lparr>hold_dds := False\<rparr> else n)"

definition routine_step_output :: "stepgen \<Rightarrow> stepgen \<Rightarrow> stepgen" where
  "routine_step_output s n = (if steplen_counter s > 0 then n\<lparr>step := True\<rparr> else n\<lparr>step := False\<rparr>)"

definition routine_dir :: "'a pick_offs_scheme \<Rightarrow> stepgen \<Rightarrow> stepgen \<Rightarrow> stepgen" where
  "routine_dir k s n =
     (if dir s \<noteq> speed_sign k s then
        (let n1 = n\<lparr>hold_dds := True\<rparr>;
             n2 = (if dir_setup_counter s = 0
                   then n1\<lparr>dir_setup_counter := dir_setup_time s mod 2 ^ 13\<rparr> else n1)
         in if dir_hold_counter s = 0 then n2\<lparr>dir := speed_sign k s\<rparr> else n2)
      else n)"

definition StepgenCounter :: "stepgen \<Rightarrow> stepgen \<Rightarrow> stepgen" where
  "StepgenCounter s n =
     (let n1 = (if steplen_counter s > 0
                then n\<lparr>steplen_counter := (steplen_counter s - 1) mod 2 ^ 10\<rparr> else n);
          n2 = (if dir_hold_counter s > 0
                then n1\<lparr>dir_hold_counter := (dir_hold_counter s - 1) mod 2 ^ 11\<rparr> else n1)
      in if dir_setup_counter s > 0
         then n2\<lparr>dir_setup_counter := (dir_setup_counter s - 1) mod 2 ^ 13\<rparr> else n2)"

subsection \<open>One clock tick of the generator\<close>

definition stepgen_sync :: "stepgen_params \<Rightarrow> stepgen \<Rightarrow> stepgen \<Rightarrow> stepgen" where
  "stepgen_sync k s n =
     StepgenCounter s
       (routine_dir k s
         (routine_step_output s
           (routine_release s
             (routine_step k s
               (update_position k s
                 (reset_algorithm s
                   (position_algorithm k s
                     (ramp k s n))))))))"

definition stepgen_tick :: "stepgen_params \<Rightarrow> stepgen \<Rightarrow> stepgen" where
  "stepgen_tick k s = stepgen_sync k s s"





fun stepgen_run :: "stepgen_params \<Rightarrow> (stepgen \<Rightarrow> stepgen) list \<Rightarrow> stepgen \<Rightarrow> stepgen" where
  "stepgen_run k [] s = s"
| "stepgen_run k (w # ws) s = stepgen_run k ws (stepgen_tick k (w s))"

section \<open>Turret sequencer (firmware/toolerator.py)\<close>

datatype TooleratorStates =
  START | HOME_SEARCHING | HOME_BACK_OFF | HOME_LATCHING | HOME_MOVE_TO_ZERO
  | MOVING_FORWARD | MOVING_BACKWARD | READY | ERROR

text \<open>
  The constructor turns the configuration into integer constants with Python floating-point
  arithmetic before any hardware exists.  These constants are fields of the configuration:
  \<^item> \<open>index_steps\<close> is \<^verbatim>\<open>int((config.ppr << pick_off_pos) / config.tool_count)\<close>,
  \<^item> \<open>over_travel_steps\<close> is \<^verbatim>\<open>int((config.ppr << pick_off_pos) * (config.over_travel / 360))\<close>,
  \<^item> \<open>cfg_max_acceleration\<close>, \<open>cfg_max_speed\<close>, \<open>cfg_steplen\<close>, \<open>cfg_dir_hold_time\<close> and
    \<open>cfg_dir_setup_time\<close> are the values wired to the generator's limits and timings.

  \<open>homing\<close> is the optional homing section of the configuration.  Its fields
  \<open>home_back_off\<close>, \<open>home_latch_vel\<close> and \<open>home_position\<close> are Python floats on which no
  result depends (see the constructor below); the record keeps the pin and its polarity.
\<close>

record homing_config =
  home_pin :: string
  invert_home :: bool

record toolerator_config =
  tool_count :: int
  ppr :: int
  index_steps :: int
  over_travel_steps :: int
  cfg_max_acceleration :: int
  cfg_max_speed :: int
  cfg_steplen :: nat
  cfg_dir_hold_time :: nat
  cfg_dir_setup_time :: nat
  homing :: "homing_config option"
  pick_off :: pick_offs

text \<open>The sequencer builds its generator with \<^verbatim>\<open>soft_stop=True\<close>.\<close>

definition gen_params :: "toolerator_config \<Rightarrow> stepgen_params" where
  "gen_params cfg =
     \<lparr>pick_off_pos = pick_off_pos (pick_off cfg),
      pick_off_vel = pick_off_vel (pick_off cfg),
      pick_off_acc = pick_off_acc (pick_off cfg),
      soft_stop = True\<rparr>"

record toolerator =
  tool_enable :: bool
  current_tool :: nat
  moving_to_tool :: nat
  commanded_tool :: nat
  home :: bool
  home_triggered :: bool
  home_position :: int
  homed :: bool
  state :: TooleratorStates
  step_generator :: stepgen

definition toolerator_reset :: "toolerator_config \<Rightarrow> toolerator" where
  "toolerator_reset cfg =
     \<lparr>tool_enable = False, current_tool = 0, moving_to_tool = 0, commanded_tool = 0,
      home = False, home_triggered = False, home_position = 0,
      homed = (homing cfg = None), state = START, step_generator = stepgen_reset\<rparr>"

text \<open>
  What the surrounding design presents at a tick.  \<open>in_pads_home\<close> is the home sensor pad: the
  constructor builds the assignment of the pad to \<open>home_triggered\<close> but does not add it to any
  domain, so nothing drives \<open>home_triggered\<close>.
\<close>

record toolerator_inputs =
  in_enable :: bool
  in_commanded_tool :: nat
  in_home :: bool
  in_pads_home :: bool

definition drive :: "toolerator_config \<Rightarrow> toolerator_inputs \<Rightarrow> toolerator \<Rightarrow> toolerator" where
  "drive cfg i t =
     t\<lparr>tool_enable := in_enable i,
       commanded_tool := in_commanded_tool i mod 2 ^ 8,
       home := in_home i,
       step_generator := (step_generator t)
         \<lparr>enable := in_enable i,
          max_acceleration := trunc_signal 32 False (cfg_max_acceleration cfg),
          max_speed := trunc_signal (speed_width (pick_off cfg)) True (cfg_max_speed cfg),
          steplen := cfg_steplen cfg mod 2 ^ 10,
          dir_hold_time := cfg_dir_hold_time cfg mod 2 ^ 10,
          dir_setup_time := cfg_dir_setup_time cfg mod 2 ^ 12\<rparr>\<rparr>"

subsection \<open>The state machine\<close>

text \<open>
  Guards are transcribed with Python's operator precedence: \<open>|\<close> and \<open>&\<close> bind tighter than
  \<open>==\<close>, so \<^verbatim>\<open>self.home == 1 | (...)\<close> compares \<open>home\<close> with \<open>1 | (...)\<close>.
\<close>

definition fsm_start :: "toolerator_config \<Rightarrow> toolerator \<Rightarrow> toolerator \<Rightarrow> toolerator" where
  "fsm_start cfg s n =
     (let n1 = (if b2i (homed s) = 1
                then n\<lparr>step_generator := (step_generator n)\<lparr>position_mode := True\<rparr>,
                       state := READY\<rparr>
                else n)
      in if b2i (home s)
            = (1 OR (b2i (current_tool s \<noteq> commanded_tool s) AND NOT (b2i (homed s))))
         then n1\<lparr>step_generator := (step_generator n1)
                    \<lparr>position_mode := False,
                     speed_target := max_speed (step_generator s)\<rparr>,
                  home_position := position (step_generator s),
                  state := HOME_SEARCHING\<rparr>
         else n1)"

definition fsm_ready :: "toolerator_config \<Rightarrow> toolerator \<Rightarrow> toolerator \<Rightarrow> toolerator" where
  "fsm_ready cfg s n =
     (if current_tool s \<noteq> commanded_tool s \<and> homed s then
        (let n1 =
           (if current_tool s < commanded_tool s
            then n\<lparr>step_generator := (step_generator n)
                     \<lparr>position_target := trunc_signal (pos_width (pick_off cfg)) True
                        (position_target (step_generator s)
                         + index_steps cfg * (int (commanded_tool s) - int (current_tool s))
                         + over_travel_steps cfg)\<rparr>\<rparr>
            else n\<lparr>step_generator := (step_generator n)
                     \<lparr>position_target := trunc_signal (pos_width (pick_off cfg)) True
                        (position_target (step_generator s)
                         + index_steps cfg
                           * (tool_count cfg + int (commanded_tool s) - int (current_tool s))
                         + over_travel_steps cfg)\<rparr>\<rparr>)
         in n1\<lparr>moving_to_tool := commanded_tool s, state := MOVING_FORWARD\<rparr>)
      else n)"

definition fsm_main :: "toolerator_config \<Rightarrow> toolerator \<Rightarrow> toolerator \<Rightarrow> toolerator" where
  "fsm_main cfg s n =
     (if state s = START then fsm_start cfg s n
      else if state s = MOVING_FORWARD then
        (if stopped (pick_off cfg) (step_generator s)
         then n\<lparr>step_generator := (step_generator n)
                  \<lparr>position_target := trunc_signal (pos_width (pick_off cfg)) True
                     (position_target (step_generator s) - over_travel_steps cfg)\<rparr>,
                state := MOVING_BACKWARD\<rparr>
         else n)
      else if state s = MOVING_BACKWARD then
        (if stopped (pick_off cfg) (step_generator s)
         then n\<lparr>current_tool := moving_to_tool s, state := READY\<rparr>
         else n)
      else if state s = READY then fsm_ready cfg s n
      else n)"

subsection \<open>The constructor\<close>

text \<open>
  \<^verbatim>\<open>TooleratorModule.__init__\<close> builds the generator, then the statement of the states
  above, whose \<open>READY\<close> branch divides by \<open>tool_count\<close>, and then, under
  \<^verbatim>\<open>if config.homing:\<close>, the statement of the states \<open>HOME_SEARCHING\<close>, \<open>HOME_BACK_OFF\<close>,
  \<open>HOME_LATCHING\<close> and \<open>HOME_MOVE_TO_ZERO\<close>.  Building that second statement evaluates
  \<^verbatim>\<open>config.homing.home_latch_vel << self.step_generator.pick_off_vel\<close>, a shift of a Python
  float, and \<^verbatim>\<open>self.step_generator.position_mode.eq(0) & self.step_generator.stopped\<close>, the
  conjunction of an assignment with a signal; each raises \<open>TypeError\<close>.  A configuration
  with homing therefore never yields a circuit, and in every circuit that exists the four
  homing states have no statement.  The pick-off is the one the generator's constructor has
  stored (\<open>store_pick_off\<close>).
\<close>

definition TooleratorModule_init :: "toolerator_config \<Rightarrow> error + toolerator" where
  "TooleratorModule_init cfg =
     (if tool_count cfg = 0 then Inl ZeroDivisionError
      else case homing cfg of
             Some h \<Rightarrow> Inl TypeError
           | None \<Rightarrow> Inr (toolerator_reset cfg))"

subsection \<open>One clock tick of the sequencer with its generator\<close>

text \<open>
  The tick of a circuit the constructor has built: the inputs are wired in, the statement
  of the sequencer runs and the statements of its generator follow.
\<close>

definition toolerator_tick ::
  "toolerator_config \<Rightarrow> toolerator_inputs \<Rightarrow> toolerator \<Rightarrow> toolerator" where
  "toolerator_tick cfg i t =
     (let s = drive cfg i t;
          n1 = fsm_main cfg s s
      in n1\<lparr>step_generator :=
              stepgen_sync (gen_params cfg) (step_generator s) (step_generator n1)\<rparr>)"


section \<open>Example configurations, generator states and owner writes\<close>

text \<open>
  Concrete pick-offs, configurations and register states on which the results below are
  evaluated.  \<open>k_shift8\<close> is the pick-off \<open>(32, 40, 48)\<close> of the module's own simulation,
  \<open>k_flat\<close> a single integer pick-off \<open>32\<close>.
\<close>

definition k_shift8 :: stepgen_params where
  "k_shift8 = \<lparr>pick_off_pos = 32, pick_off_vel = 40, pick_off_acc = 48, soft_stop = True\<rparr>"

definition k_flat :: stepgen_params where
  "k_flat = \<lparr>pick_off_pos = 32, pick_off_vel = 32, pick_off_acc = 32, soft_stop = True\<rparr>"

definition set_speed_target :: "int \<Rightarrow> stepgen \<Rightarrow> stepgen" where
  "set_speed_target v s = s\<lparr>speed_target := v\<rparr>"

definition set_reset :: "bool \<Rightarrow> stepgen \<Rightarrow> stepgen" where
  "set_reset b s = s\<lparr>reset := b\<rparr>"


definition s_cruise :: stepgen where
  "s_cruise = stepgen_reset\<lparr>dir := False, enable := True, position_mode := True,
     max_acceleration := 4, max_speed := 10, speed := 8, speed_target := 10\<rparr>"

text \<open>The same speeds in velocity mode.\<close>

definition s_gap :: stepgen where
  "s_gap = stepgen_reset\<lparr>dir := False, enable := True, max_acceleration := 4, speed := 8,
     speed_target := 10\<rparr>"


text \<open>An enabled generator at rest, and two executions that start from it.\<close>

definition s_idle :: stepgen where
  "s_idle = stepgen_reset\<lparr>enable := True, max_acceleration := 4\<rparr>"

definition s_drift :: stepgen where
  "s_drift = stepgen_run k_flat
     [set_speed_target 4, set_speed_target 6, set_speed_target 4, set_speed_target 0] s_idle"

definition s_after_reset :: stepgen where
  "s_after_reset = stepgen_run k_flat [set_speed_target 4, set_reset True, set_reset False] s_idle"

definition s_settled :: stepgen where
  "s_settled = stepgen_reset\<lparr>enable := True, max_acceleration := 4, acc_distance := 10\<rparr>"


text \<open>
  A six-tool turret with 1800 pulses per revolution: \<open>(1800 << 32) / 6\<close> is exactly
  \<open>300 * 2 ^ 32\<close>.  \<open>cfg_home\<close> adds a homing section, \<open>cfg_reverse\<close> has a negative
  maximum velocity and no acceleration limit.
\<close>

definition cfg_six :: toolerator_config where
  "cfg_six =
     \<lparr>tool_count = 6, ppr = 1800, index_steps = 1800 * 2 ^ 32 div 6,
      over_travel_steps = 100 * 2 ^ 32,
      cfg_max_acceleration = 8, cfg_max_speed = 2 ^ 20,
      cfg_steplen = 16, cfg_dir_hold_time = 16, cfg_dir_setup_time = 32,
      homing = None,
      pick_off = \<lparr>pick_off_pos = 32, pick_off_vel = 40, pick_off_acc = 48\<rparr>\<rparr>"

definition cfg_home :: toolerator_config where
  "cfg_home = cfg_six\<lparr>homing :=
     Some \<lparr>home_pin = ''j9:0'', invert_home = False\<rparr>\<rparr>"








section \<open>Predicates used in the proofs\<close>


section \<open>Arithmetic of signals and guards\<close>


lemma trunc_signal_in_range: "0 < w \<Longrightarrow> in_range w True (trunc_signal w True v)"
proof -
  assume w: "0 < w"
  obtain m where m: "w = Suc m" using w by (cases w) auto
  define u where "u = v mod 2 ^ w"
  have b: "0 \<le> u" "u < 2 * 2 ^ m" by (simp_all add: u_def m)
  have "trunc_signal w True v = (if 2 ^ m \<le> u then u - 2 * 2 ^ m else u)"
    by (simp add: trunc_signal_def u_def m Let_def)
  then show ?thesis using b by (simp add: in_range_def m)
qed



lemma b2i_simps [simp]: "b2i True = 1" "b2i False = 0"
  by (simp_all add: b2i_def)

section \<open>What each statement of the generator writes\<close>

text \<open>
  Every statement leaves the registers it does not assign as they are pending; the lemmas
  named \<open>sync_\<close> give the value a register has after all statements of one tick.
\<close>

lemma ramp_frame [simp]:
  "step_prev (ramp k s n) = step_prev n" "step (ramp k s n) = step n" "dir (ramp k s n) = dir n"
  "steplen (ramp k s n) = steplen n" "dir_hold_time (ramp k s n) = dir_hold_time n"
  "dir_setup_time (ramp k s n) = dir_setup_time n"
  "steplen_counter (ramp k s n) = steplen_counter n"
  "dir_hold_counter (ramp k s n) = dir_hold_counter n"
  "dir_setup_counter (ramp k s n) = dir_setup_counter n"
  "hold_dds (ramp k s n) = hold_dds n" "wait (ramp k s n) = wait n" "reset (ramp k s n) = reset n"
  "enable (ramp k s n) = enable n" "position_mode (ramp k s n) = position_mode n"
  "position (ramp k s n) = position n" "position_target (ramp k s n) = position_target n"
  "max_speed (ramp k s n) = max_speed n" "max_acceleration (ramp k s n) = max_acceleration n"
  by (simp_all add: ramp_def ramp_accelerate_def ramp_decelerate_def ramp_bridge_def Let_def)

lemma position_algorithm_frame [simp]:
  "step_prev (position_algorithm k s n) = step_prev n" "step (position_algorithm k s n) = step n"
  "dir (position_algorithm k s n) = dir n"
  "steplen (position_algorithm k s n) = steplen n"
  "dir_hold_time (position_algorithm k s n) = dir_hold_time n"
  "dir_setup_time (position_algorithm k s n) = dir_setup_time n"
  "steplen_counter (position_algorithm k s n) = steplen_counter n"
  "dir_hold_counter (position_algorithm k s n) = dir_hold_counter n"
  "dir_setup_counter (position_algorithm k s n) = dir_setup_counter n"
  "hold_dds (position_algorithm k s n) = hold_dds n" "wait (position_algorithm k s n) = wait n"
  "reset (position_algorithm k s n) = reset n"
  "enable (position_algorithm k s n) = enable n"
  "position_mode (position_algorithm k s n) = position_mode n"
  "accelerating (position_algorithm k s n) = accelerating n"
  "position (position_algorithm k s n) = position n"
  "position_target (position_algorithm k s n) = position_target n"
  "acc_distance (position_algorithm k s n) = acc_distance n"
  "speed (position_algorithm k s n) = speed n"
  "max_speed (position_algorithm k s n) = max_speed n"
  "max_acceleration (position_algorithm k s n) = max_acceleration n"
  by (simp_all add: position_algorithm_def)

lemma reset_algorithm_frame [simp]:
  "step_prev (reset_algorithm s n) = step_prev n" "step (reset_algorithm s n) = step n"
  "dir (reset_algorithm s n) = dir n"
  "steplen (reset_algorithm s n) = steplen n"
  "dir_hold_time (reset_algorithm s n) = dir_hold_time n"
  "dir_setup_time (reset_algorithm s n) = dir_setup_time n"
  "steplen_counter (reset_algorithm s n) = steplen_counter n"
  "dir_hold_counter (reset_algorithm s n) = dir_hold_counter n"
  "dir_setup_counter (reset_algorithm s n) = dir_setup_counter n"
  "hold_dds (reset_algorithm s n) = hold_dds n" "wait (reset_algorithm s n) = wait n"
  "reset (reset_algorithm s n) = reset n"
  "enable (reset_algorithm s n) = enable n"
  "position_mode (reset_algorithm s n) = position_mode n"
  "accelerating (reset_algorithm s n) = accelerating n"
  "position_target (reset_algorithm s n) = position_target n"
  "acc_distance (reset_algorithm s n) = acc_distance n"
  "max_speed (reset_algorithm s n) = max_speed n"
  by (simp_all add: reset_algorithm_def)

lemma update_position_frame [simp]:
  "step_prev (update_position k s n) = step_prev n" "step (update_position k s n) = step n"
  "dir (update_position k s n) = dir n"
  "steplen (update_position k s n) = steplen n"
  "dir_hold_time (update_position k s n) = dir_hold_time n"
  "dir_setup_time (update_position k s n) = dir_setup_time n"
  "steplen_counter (update_position k s n) = steplen_counter n"
  "dir_hold_counter (update_position k s n) = dir_hold_counter n"
  "dir_setup_counter (update_position k s n) = dir_setup_counter n"
  "hold_dds (update_position k s n) = hold_dds n" "wait (update_position k s n) = wait n"
  "reset (update_position k s n) = reset n"
  "enable (update_position k s n) = enable n"
  "position_mode (update_position k s n) = position_mode n"
  "accelerating (update_position k s n) = accelerating n"
  "position_target (update_position k s n) = position_target n"
  "acc_distance (update_position k s n) = acc_distance n"
  "speed (update_position k s n) = speed n"
  "speed_target (update_position k s n) = speed_target n"
  "max_speed (update_position k s n) = max_speed n"
  "max_acceleration (update_position k s n) = max_acceleration n"
  by (simp_all add: update_position_def)

lemma routine_step_frame [simp]:
  "step (routine_step k s n) = step n"
  "dir (routine_step k s n) = dir n"
  "steplen (routine_step k s n) = steplen n"
  "dir_hold_time (routine_step k s n) = dir_hold_time n"
  "dir_setup_time (routine_step k s n) = dir_setup_time n"
  "hold_dds (routine_step k s n) = hold_dds n"
  "reset (routine_step k s n) = reset n"
  "enable (routine_step k s n) = enable n"
  "position_mode (routine_step k s n) = position_mode n"
  "accelerating (routine_step k s n) = accelerating n"
  "position (routine_step k s n) = position n"
  "position_target (routine_step k s n) = position_target n"
  "acc_distance (routine_step k s n) = acc_distance n"
  "speed (routine_step k s n) = speed n"
  "speed_target (routine_step k s n) = speed_target n"
  "max_speed (routine_step k s n) = max_speed n"
  "max_acceleration (routine_step k s n) = max_acceleration n"
  by (simp_all add: routine_step_def)

lemma routine_release_frame [simp]:
  "step_prev (routine_release s n) = step_prev n"
  "step (routine_release s n) = step n"
  "dir (routine_release s n) = dir n"
  "steplen (routine_release s n) = steplen n"
  "dir_hold_time (routine_release s n) = dir_hold_time n"
  "dir_setup_time (routine_release s n) = dir_setup_time n"
  "steplen_counter (routine_release s n) = steplen_counter n"
  "dir_hold_counter (routine_release s n) = dir_hold_counter n"
  "dir_setup_counter (routine_release s n) = dir_setup_counter n"
  "wait (routine_release s n) = wait n"
  "reset (routine_release s n) = reset n"
  "enable (routine_release s n) = enable n"
  "position_mode (routine_release s n) = position_mode n"
  "accelerating (routine_release s n) = accelerating n"
  "position (routine_release s n) = position n"
  "position_target (routine_release s n) = position_target n"
  "acc_distance (routine_release s n) = acc_distance n"
  "speed (routine_release s n) = speed n"
  "speed_target (routine_release s n) = speed_target n"
  "max_speed (routine_release s n) = max_speed n"
  "max_acceleration (routine_release s n) = max_acceleration n"
  by (simp_all add: routine_release_def)

lemma routine_step_output_frame [simp]:
  "step_prev (routine_step_output s n) = step_prev n"
  "dir (routine_step_output s n) = dir n"
  "steplen (routine_step_output s n) = steplen n"
  "dir_hold_time (routine_step_output s n) = dir_hold_time n"
  "dir_setup_time (routine_step_output s n) = dir_setup_time n"
  "steplen_counter (routine_step_output s n) = steplen_counter n"
  "dir_hold_counter (routine_step_output s n) = dir_hold_counter n"
  "dir_setup_counter (routine_step_output s n) = dir_setup_counter n"
  "hold_dds (routine_step_output s n) = hold_dds n"
  "wait (routine_step_output s n) = wait n"
  "reset (routine_step_output s n) = reset n"
  "enable (routine_step_output s n) = enable n"
  "position_mode (routine_step_output s n) = position_mode n"
  "accelerating (routine_step_output s n) = accelerating n"
  "position (routine_step_output s n) = position n"
  "position_target (routine_step_output s n) = position_target n"
  "acc_distance (routine_step_output s n) = acc_distance n"
  "speed (routine_step_output s n) = speed n"
  "speed_target (routine_step_output s n) = speed_target n"
  "max_speed (routine_step_output s n) = max_speed n"
  "max_acceleration (routine_step_output s n) = max_acceleration n"
  by (simp_all add: routine_step_output_def)

lemma routine_dir_frame [simp]:
  "step_prev (routine_dir k s n) = step_prev n"
  "step (routine_dir k s n) = step n"
  "steplen (routine_dir k s n) = steplen n"
  "dir_hold_time (routine_dir k s n) = dir_hold_time n"
  "dir_setup_time (routine_dir k s n) = dir_setup_time n"
  "steplen_counter (routine_dir k s n) = steplen_counter n"
  "dir_hold_counter (routine_dir k s n) = dir_hold_counter n"
  "wait (routine_dir k s n) = wait n"
  "reset (routine_dir k s n) = reset n"
  "enable (routine_dir k s n) = enable n"
  "position_mode (routine_dir k s n) = position_mode n"
  "accelerating (routine_dir k s n) = accelerating n"
  "position (routine_dir k s n) = position n"
  "position_target (routine_dir k s n) = position_target n"
  "acc_distance (routine_dir k s n) = acc_distance n"
  "speed (routine_dir k s n) = speed n"
  "speed_target (routine_dir k s n) = speed_target n"
  "max_speed (routine_dir k s n) = max_speed n"
  "max_acceleration (routine_dir k s n) = max_acceleration n"
  by (simp_all add: routine_dir_def Let_def)

lemma StepgenCounter_frame [simp]:
  "step_prev (StepgenCounter s n) = step_prev n"
  "step (StepgenCounter s n) = step n"
  "dir (StepgenCounter s n) = dir n"
  "steplen (StepgenCounter s n) = steplen n"
  "dir_hold_time (StepgenCounter s n) = dir_hold_time n"
  "dir_setup_time (StepgenCounter s n) = dir_setup_time n"
  "hold_dds (StepgenCounter s n) = hold_dds n"
  "wait (StepgenCounter s n) = wait n"
  "reset (StepgenCounter s n) = reset n"
  "enable (StepgenCounter s n) = enable n"
  "position_mode (StepgenCounter s n) = position_mode n"
  "accelerating (StepgenCounter s n) = accelerating n"
  "position (StepgenCounter s n) = position n"
  "position_target (StepgenCounter s n) = position_target n"
  "acc_distance (StepgenCounter s n) = acc_distance n"
  "speed (StepgenCounter s n) = speed n"
  "speed_target (StepgenCounter s n) = speed_target n"
  "max_speed (StepgenCounter s n) = max_speed n"
  "max_acceleration (StepgenCounter s n) = max_acceleration n"
  by (simp_all add: StepgenCounter_def Let_def)

lemma sync_frame:
  "reset (stepgen_sync k s n) = reset n"
  "enable (stepgen_sync k s n) = enable n"
  "position_mode (stepgen_sync k s n) = position_mode n"
  "position_target (stepgen_sync k s n) = position_target n"
  "max_speed (stepgen_sync k s n) = max_speed n"
  "steplen (stepgen_sync k s n) = steplen n"
  "dir_hold_time (stepgen_sync k s n) = dir_hold_time n"
  "dir_setup_time (stepgen_sync k s n) = dir_setup_time n"
  by (simp_all add: stepgen_sync_def)

lemma sync_speed:
  "speed (stepgen_sync k s n) = (if reset s then 0 else speed (ramp k s n))"
  by (simp add: stepgen_sync_def reset_algorithm_def)


lemma sync_acc_distance:
  "acc_distance (stepgen_sync k s n) = acc_distance (ramp k s n)"
  by (simp add: stepgen_sync_def)

lemma sync_accelerating:
  "accelerating (stepgen_sync k s n) = accelerating (ramp k s n)"
  by (simp add: stepgen_sync_def)








lemma ramp_speed:
  "speed (ramp k s n) =
     (if \<not> reset s \<and> \<not> wait s then
        (if max_acceleration s = 0 then speed_target s
         else if speed_target s \<ge> speed s + max_acceleration s
         then trunc_signal (speed_width k) True (speed s + max_acceleration s)
         else if speed_target s \<le> speed s - max_acceleration s
         then trunc_signal (speed_width k) True (speed s - max_acceleration s)
         else if \<not> position_mode s \<or> speed_target s = 0 then speed_target s
         else speed n)
      else speed n)"
  by (simp add: ramp_def ramp_accelerate_def ramp_decelerate_def ramp_bridge_def Let_def)


lemma ramp_bridge_fields:
  "speed (ramp_bridge k s n) =
     (if \<not> position_mode s \<or> speed_target s = 0 then speed_target s else speed n)"
  "accelerating (ramp_bridge k s n) = False"
  "acc_distance (ramp_bridge k s n) =
     (if speed_target s = 0 then 0
      else if \<not> position_mode s \<and> speed s \<noteq> speed_target s
      then (if speed s \<ge> 0
            then trunc_signal (pos_width k) True
                   (acc_distance s + (speed s + speed_target s) div 2 ^ (acc_shift k + 1))
            else trunc_signal (pos_width k) True
                   (acc_distance s - (speed s + speed_target s) div 2 ^ (acc_shift k + 1)))
      else acc_distance n)"
  by (simp_all add: ramp_bridge_def Let_def)


lemmas eval_defs = stepgen_reset_def stepgen_tick_def stepgen_sync_def k_shift8_def k_flat_def
      ramp_def ramp_bridge_def ramp_accelerate_def ramp_decelerate_def
      position_algorithm_def reset_algorithm_def update_position_def
      routine_step_def routine_release_def routine_step_output_def routine_dir_def
      StepgenCounter_def Let_def dtg_def trunc_signal_def acc_shift_def pos_width_def
      speed_width_def step_phase_def speed_sign_def bit_iff_odd set_speed_target_def set_reset_def



section \<open>The velocity ramp\<close>









lemma tick_bridge:
  assumes "\<not> reset s" "\<not> wait s" "0 < max_acceleration s"
    and "speed_target s < speed s + max_acceleration s"
    and "speed_target s > speed s - max_acceleration s"
  shows "speed (stepgen_tick k s)
           = (if \<not> position_mode s \<or> speed_target s = 0 then speed_target s else speed s)"
    and "accelerating (stepgen_tick k s) = False"
    and "acc_distance (stepgen_tick k s)
           = (if speed_target s = 0 then 0
              else if \<not> position_mode s \<and> speed s \<noteq> speed_target s
              then (if speed s \<ge> 0
                    then trunc_signal (pos_width k) True
                           (acc_distance s + (speed s + speed_target s) div 2 ^ (acc_shift k + 1))
                    else trunc_signal (pos_width k) True
                           (acc_distance s - (speed s + speed_target s) div 2 ^ (acc_shift k + 1)))
              else acc_distance s)"
proof -
  have r: "ramp k s s = ramp_bridge k s (if \<not> enable s then s\<lparr>speed_target := 0\<rparr> else s)"
    using assms by (simp add: ramp_def Let_def)
  show "speed (stepgen_tick k s)
           = (if \<not> position_mode s \<or> speed_target s = 0 then speed_target s else speed s)"
    and "accelerating (stepgen_tick k s) = False"
    and "acc_distance (stepgen_tick k s)
           = (if speed_target s = 0 then 0
              else if \<not> position_mode s \<and> speed s \<noteq> speed_target s
              then (if speed s \<ge> 0
                    then trunc_signal (pos_width k) True
                           (acc_distance s + (speed s + speed_target s) div 2 ^ (acc_shift k + 1))
                    else trunc_signal (pos_width k) True
                           (acc_distance s - (speed s + speed_target s) div 2 ^ (acc_shift k + 1)))
              else acc_distance s)"
    using assms
    by (simp_all add: stepgen_tick_def sync_speed sync_accelerating sync_acc_distance r ramp_bridge_fields)
qed


section \<open>Direction hold\<close>




section \<open>What the sequencer writes\<close>

lemma drive_fields [simp]:
  "state (drive cfg i t) = state t" "homed (drive cfg i t) = homed t"
  "current_tool (drive cfg i t) = current_tool t"
  "moving_to_tool (drive cfg i t) = moving_to_tool t"
  "home_triggered (drive cfg i t) = home_triggered t"
  "home_position (drive cfg i t) = home_position t"
  "home (drive cfg i t) = in_home i"
  "commanded_tool (drive cfg i t) = in_commanded_tool i mod 2 ^ 8"
  "position_target (step_generator (drive cfg i t)) = position_target (step_generator t)"
  "position (step_generator (drive cfg i t)) = position (step_generator t)"
  "position_mode (step_generator (drive cfg i t)) = position_mode (step_generator t)"
  "reset (step_generator (drive cfg i t)) = reset (step_generator t)"
  "wait (step_generator (drive cfg i t)) = wait (step_generator t)"
  "enable (step_generator (drive cfg i t)) = in_enable i"
  by (simp_all add: drive_def)

lemma fsm_homed [simp]:
  "homed (fsm_start cfg s n) = homed n"
  "homed (fsm_ready cfg s n) = homed n"
  by (simp_all add: fsm_start_def fsm_ready_def Let_def)

lemma fsm_main_homed [simp]: "homed (fsm_main cfg s n) = homed n"
  by (simp add: fsm_main_def)



text \<open>On a home request \<open>START\<close> begins the search.\<close>

lemma start_home_request:
  assumes "state t = START" and "in_home i"
  shows "state (toolerator_tick cfg i t) = HOME_SEARCHING
       \<and> \<not> position_mode (step_generator (toolerator_tick cfg i t))
       \<and> home_position (toolerator_tick cfg i t) = position (step_generator t)"
  using assms
  by (cases "homed t"; cases "current_tool t = in_commanded_tool i mod 2 ^ 8")
    (simp_all add: toolerator_tick_def Let_def fsm_main_def fsm_start_def sync_frame)


section \<open>Results on the turret sequencer\<close>




text \<open>
  Claim C2.  The claim is that, for every configuration with a home sensor, the sequencer
  reaches \<open>READY\<close> with \<open>homed\<close> set once the sensor triggers and \<open>ERROR\<close> when it never
  does.  For every configuration with a homing section the constructor raises: no
  sequencer is built, so none reaches \<open>READY\<close> or \<open>ERROR\<close>; with at least one tool the
  error is the \<open>TypeError\<close> of the homing statement.
\<close>

theorem homing_configuration_is_never_built:
  assumes "homing cfg = Some h"
  shows "(\<forall>t. TooleratorModule_init cfg \<noteq> Inr t)
       \<and> (tool_count cfg \<noteq> 0 \<longrightarrow> TooleratorModule_init cfg = Inl TypeError)"
  using assms by (simp add: TooleratorModule_init_def)

theorem homing_configuration_is_never_built_witness:
  "TooleratorModule_init cfg_home = Inl TypeError"
proof -
  have h: "homing cfg_home = Some \<lparr>home_pin = ''j9:0'', invert_home = False\<rparr>"
    by (simp add: cfg_home_def)
  have c: "tool_count cfg_home \<noteq> 0"
    by (simp add: cfg_home_def cfg_six_def)
  show ?thesis using homing_configuration_is_never_built[OF h] c by blast
qed










section \<open>Results on the step pulse generator\<close>

text \<open>
  Against claim C5 as stated: in position mode with a nonzero speed target inside the
  one-tick gap, the speed is not set to the target.
\<close>

theorem bridge_in_position_mode_counterexample:
  "max_acceleration s_cruise > 0 \<and> \<not> reset s_cruise \<and> \<not> wait s_cruise
   \<and> speed_target s_cruise < speed s_cruise + max_acceleration s_cruise
   \<and> speed_target s_cruise > speed s_cruise - max_acceleration s_cruise
   \<and> position_mode s_cruise \<and> speed_target s_cruise \<noteq> 0
   \<and> speed (stepgen_tick k_shift8 s_cruise) \<noteq> speed_target s_cruise"
  by (simp add: s_cruise_def stepgen_reset_def stepgen_tick_def sync_speed ramp_speed)


text \<open>
  Claim C5, amended.  With \<open>max_acceleration > 0\<close> and the ramp running (\<open>reset\<close> and
  \<open>wait\<close> low), when the gap between speed target and speed closes within one tick: if
  position mode is off or the speed target is 0, the speed becomes the speed target and,
  where the two differed, \<open>(speed + speed_target) >> (shift + 1)\<close> is added to \<open>acc_distance\<close>
  (subtracted when the speed is negative); in position mode with a nonzero target the speed
  and \<open>acc_distance\<close> stay as they are; \<open>accelerating\<close> is cleared; and whenever the speed
  target is 0, \<open>acc_distance\<close> is reset to 0.
\<close>

theorem bridge_branch:
  assumes "\<not> reset s" "\<not> wait s" "0 < max_acceleration s"
    and "speed_target s < speed s + max_acceleration s"
    and "speed_target s > speed s - max_acceleration s"
  shows "speed (stepgen_tick k s)
           = (if \<not> position_mode s \<or> speed_target s = 0 then speed_target s else speed s)
       \<and> accelerating (stepgen_tick k s) = False
       \<and> acc_distance (stepgen_tick k s)
           = (if speed_target s = 0 then 0
              else if \<not> position_mode s \<and> speed s \<noteq> speed_target s
              then (if speed s \<ge> 0
                    then trunc_signal (pos_width k) True
                           (acc_distance s + (speed s + speed_target s) div 2 ^ (acc_shift k + 1))
                    else trunc_signal (pos_width k) True
                           (acc_distance s - (speed s + speed_target s) div 2 ^ (acc_shift k + 1)))
              else acc_distance s)"
  using tick_bridge[OF assms, of k] by simp

theorem bridge_branch_witness:
  "speed (stepgen_tick k_shift8 s_gap) = 10 \<and> accelerating (stepgen_tick k_shift8 s_gap) = False
   \<and> speed (stepgen_tick k_shift8 s_cruise) = 8"
proof -
  have h: "\<not> reset s_gap" "\<not> wait s_gap" "0 < max_acceleration s_gap"
    "speed_target s_gap < speed s_gap + max_acceleration s_gap"
    "speed_target s_gap > speed s_gap - max_acceleration s_gap"
    by (simp_all add: s_gap_def stepgen_reset_def)
  have c: "\<not> reset s_cruise" "\<not> wait s_cruise" "0 < max_acceleration s_cruise"
    "speed_target s_cruise < speed s_cruise + max_acceleration s_cruise"
    "speed_target s_cruise > speed s_cruise - max_acceleration s_cruise"
    by (simp_all add: s_cruise_def stepgen_reset_def)
  have v: "position_mode s_gap = False" "speed_target s_gap = 10"
    "position_mode s_cruise = True" "speed_target s_cruise = 10" "speed s_cruise = 8"
    by (simp_all add: s_gap_def s_cruise_def stepgen_reset_def)
  show ?thesis
    using bridge_branch[OF h, of k_shift8] bridge_branch[OF c, of k_shift8] by (simp add: v)
qed






text \<open>
  Against claim C7 as stated: after the speed targets 4, 6, 4, 0 the generator is at
  speed 0 with speed target 0 and \<open>acc_distance = 10\<close>; and after a reset during a move it
  rests for good (no tick changes any register) with \<open>acc_distance = 2\<close>.
\<close>

theorem drift_counterexample:
  "speed s_drift = 0 \<and> speed_target s_drift = 0 \<and> acc_distance s_drift = 10
   \<and> max_acceleration s_drift = 4 \<and> \<not> reset s_drift
   \<and> speed s_after_reset = 0 \<and> speed_target s_after_reset = 0 \<and> acc_distance s_after_reset = 2
   \<and> stepgen_tick k_flat s_after_reset = s_after_reset"
  by (simp add: s_drift_def s_after_reset_def s_idle_def eval_defs)


text \<open>
  Claim C7, amended.  On a tick on which the ramp runs (\<open>reset\<close> and \<open>wait\<close> low,
  \<open>max_acceleration > 0\<close>) with the speed target at 0 and the speed at 0 (or anywhere
  within one acceleration step of 0), \<open>acc_distance\<close> is exactly 0 after the tick and the
  speed is 0.
\<close>

theorem acc_distance_cleared_when_settled:
  assumes "\<not> reset s" "\<not> wait s" "0 < max_acceleration s"
    and "speed_target s = 0" and "- max_acceleration s < speed s" and "speed s < max_acceleration s"
  shows "acc_distance (stepgen_tick k s) = 0 \<and> speed (stepgen_tick k s) = 0"
  using assms by (simp add: tick_bridge)

theorem acc_distance_cleared_witness:
  "speed s_settled = 0 \<and> speed_target s_settled = 0 \<and> acc_distance s_settled = 10
   \<and> acc_distance (stepgen_tick k_flat s_settled) = 0"
proof -
  have h: "\<not> reset s_settled" "\<not> wait s_settled" "0 < max_acceleration s_settled"
    "speed_target s_settled = 0" "- max_acceleration s_settled < speed s_settled"
    "speed s_settled < max_acceleration s_settled"
    by (simp_all add: s_settled_def stepgen_reset_def)
  show ?thesis using acc_distance_cleared_when_settled[OF h, of k_flat]
    by (simp add: s_settled_def stepgen_reset_def)
qed








text \<open>
  Claim C10.  With \<open>max_acceleration = 0\<close> the window of \<open>stopped\<close> is
  \<open>dtg < 0 \<and> dtg > 0\<close>: the flag is never set, also at the target with speed 0.
\<close>

theorem stopped_never_without_acceleration_limit:
  "max_acceleration s = 0 \<Longrightarrow> \<not> stopped k s"
  by (simp add: stopped_def)

theorem stopped_never_witness:
  "max_acceleration stepgen_reset = 0 \<and> position stepgen_reset = position_target stepgen_reset
   \<and> speed stepgen_reset = 0 \<and> \<not> stopped k_shift8 stepgen_reset"
proof -
  have h: "max_acceleration stepgen_reset = 0" by (simp add: stepgen_reset_def)
  show ?thesis using stopped_never_without_acceleration_limit[OF h, of k_shift8]
    by (simp add: stepgen_reset_def)
qed


end
